theory Spec2Isabelle
  imports Complex_Main
begin

section \<open>JavaScript values used by split.js\<close>

text \<open>
  The sizing code of \<^verbatim>\<open>src/split.js\<close> computes with JavaScript numbers and reads
  object properties that may be absent. A number is modelled as a real extended by the
  two infinities and by NaN; rounding, overflow and the sign of zero are not modelled
  (a zero is a positive zero). A value is a number or \<^verbatim>\<open>undefined\<close>. An arithmetic
  operator first converts its operands to numbers, and \<^verbatim>\<open>undefined\<close> converts to NaN.
  Strings are outside the model: sizes are numbers, as the data model of the
  specification has them.
\<close>

datatype jsnum = NaN | NInf | Fin real | PInf

datatype jsval = Undefined | Num jsnum

fun ToNumber :: "jsval \<Rightarrow> jsnum" where
  "ToNumber Undefined = NaN"
| "ToNumber (Num n) = n"

fun num_neg :: "jsnum \<Rightarrow> jsnum" where
  "num_neg NaN = NaN"
| "num_neg NInf = PInf"
| "num_neg (Fin x) = Fin (- x)"
| "num_neg PInf = NInf"

fun num_add :: "jsnum \<Rightarrow> jsnum \<Rightarrow> jsnum" where
  "num_add NaN y = NaN"
| "num_add x NaN = NaN"
| "num_add (Fin x) (Fin y) = Fin (x + y)"
| "num_add (Fin x) y = y"
| "num_add x (Fin y) = x"
| "num_add PInf PInf = PInf"
| "num_add NInf NInf = NInf"
| "num_add PInf NInf = NaN"
| "num_add NInf PInf = NaN"

definition num_sub :: "jsnum \<Rightarrow> jsnum \<Rightarrow> jsnum" where
  "num_sub x y = num_add x (num_neg y)"

text \<open>The sign of a number other than NaN: \<open>True\<close> for a negative one.\<close>

fun num_negative :: "jsnum \<Rightarrow> bool" where
  "num_negative NaN = False"
| "num_negative NInf = True"
| "num_negative (Fin x) = (x < 0)"
| "num_negative PInf = False"

definition signed_inf :: "bool \<Rightarrow> jsnum" where
  "signed_inf neg = (if neg then NInf else PInf)"

fun num_mul :: "jsnum \<Rightarrow> jsnum \<Rightarrow> jsnum" where
  "num_mul NaN y = NaN"
| "num_mul x NaN = NaN"
| "num_mul (Fin x) (Fin y) = Fin (x * y)"
| "num_mul (Fin x) y = (if x = 0 then NaN else signed_inf (num_negative y \<noteq> (x < 0)))"
| "num_mul x (Fin y) = (if y = 0 then NaN else signed_inf (num_negative x \<noteq> (y < 0)))"
| "num_mul x y = signed_inf (num_negative x \<noteq> num_negative y)"

fun num_div :: "jsnum \<Rightarrow> jsnum \<Rightarrow> jsnum" where
  "num_div NaN y = NaN"
| "num_div x NaN = NaN"
| "num_div (Fin x) (Fin y) =
     (if y = 0 then (if x = 0 then NaN else signed_inf (x < 0)) else Fin (x / y))"
| "num_div (Fin x) y = Fin 0"
| "num_div x (Fin y) = signed_inf (num_negative x \<noteq> (y < 0))"
| "num_div x y = NaN"

text \<open>Comparisons are false as soon as one side is NaN.\<close>

fun num_lt :: "jsnum \<Rightarrow> jsnum \<Rightarrow> bool" where
  "num_lt NaN y = False"
| "num_lt x NaN = False"
| "num_lt (Fin x) (Fin y) = (x < y)"
| "num_lt NInf y = (y \<noteq> NInf)"
| "num_lt x PInf = (x \<noteq> PInf)"
| "num_lt x y = False"

fun num_le :: "jsnum \<Rightarrow> jsnum \<Rightarrow> bool" where
  "num_le NaN y = False"
| "num_le x NaN = False"
| "num_le (Fin x) (Fin y) = (x \<le> y)"
| "num_le NInf y = True"
| "num_le x PInf = True"
| "num_le x y = False"

definition js_add :: "jsval \<Rightarrow> jsval \<Rightarrow> jsval" where
  "js_add x y = Num (num_add (ToNumber x) (ToNumber y))"

definition js_sub :: "jsval \<Rightarrow> jsval \<Rightarrow> jsval" where
  "js_sub x y = Num (num_sub (ToNumber x) (ToNumber y))"

definition js_mul :: "jsval \<Rightarrow> jsval \<Rightarrow> jsval" where
  "js_mul x y = Num (num_mul (ToNumber x) (ToNumber y))"

definition js_div :: "jsval \<Rightarrow> jsval \<Rightarrow> jsval" where
  "js_div x y = Num (num_div (ToNumber x) (ToNumber y))"

definition js_lt :: "jsval \<Rightarrow> jsval \<Rightarrow> bool" where
  "js_lt x y = num_lt (ToNumber x) (ToNumber y)"

definition js_gt :: "jsval \<Rightarrow> jsval \<Rightarrow> bool" where
  "js_gt x y = num_lt (ToNumber y) (ToNumber x)"

definition js_le :: "jsval \<Rightarrow> jsval \<Rightarrow> bool" where
  "js_le x y = num_le (ToNumber x) (ToNumber y)"

definition js_ge :: "jsval \<Rightarrow> jsval \<Rightarrow> bool" where
  "js_ge x y = num_le (ToNumber y) (ToNumber x)"

text \<open>\<^verbatim>\<open>!v\<close>: \<^verbatim>\<open>undefined\<close>, NaN and zero are the falsy values met here.\<close>

fun js_not :: "jsval \<Rightarrow> bool" where
  "js_not Undefined = True"
| "js_not (Num NaN) = True"
| "js_not (Num (Fin x)) = (x = 0)"
| "js_not (Num y) = False"

section \<open>Data model\<close>

text \<open>
  The only exception the modelled code can raise is the TypeError of reading a property
  of \<^verbatim>\<open>undefined\<close>.
\<close>

datatype error = TypeError

datatype split_direction = Horizontal | Vertical | OtherDirection

text \<open>
  The rectangle \<^verbatim>\<open>getBoundingClientRect()\<close> returns, and the three strings chosen
  from the direction (lines 155 to 163): \<^verbatim>\<open>dimension\<close>, \<^verbatim>\<open>position\<close> and
  \<^verbatim>\<open>clientAxis\<close>. A direction that is neither horizontal nor vertical leaves the
  three \<^verbatim>\<open>undefined\<close>, and reading the property named \<^verbatim>\<open>undefined\<close> gives
  \<^verbatim>\<open>undefined\<close>.
\<close>

record bounds =
  rect_width :: jsval
  rect_height :: jsval
  rect_left :: jsval
  rect_top :: jsval

record point =
  clientX :: jsval
  clientY :: jsval

datatype event = Mouse point | Touch "point list"

fun dimension :: "split_direction \<Rightarrow> bounds \<Rightarrow> jsval" where
  "dimension Horizontal r = rect_width r"
| "dimension Vertical r = rect_height r"
| "dimension OtherDirection r = Undefined"

fun position :: "split_direction \<Rightarrow> bounds \<Rightarrow> jsval" where
  "position Horizontal r = rect_left r"
| "position Vertical r = rect_top r"
| "position OtherDirection r = Undefined"

fun clientAxis :: "split_direction \<Rightarrow> point \<Rightarrow> jsval" where
  "clientAxis Horizontal p = clientX p"
| "clientAxis Vertical p = clientY p"
| "clientAxis OtherDirection p = Undefined"

text \<open>
  A pane object, as the literal of lines 436 to 444 builds it. Its element \<^verbatim>\<open>el\<close> is
  identified with the pane's index. The field \<^verbatim>\<open>size\<close> is called \<open>psize\<close> here.
\<close>

record pane =
  minSize :: jsval
  psize :: jsval
  isFirst :: bool
  isLast :: bool
  isCollapsed :: bool

text \<open>
  The code reads three more properties of a pane: \<^verbatim>\<open>pixelSize\<close> (line 215),
  \<^verbatim>\<open>start\<close> (line 286) and \<^verbatim>\<open>gutterSize\<close> (lines 306 to 309). The literal has
  none of them, no statement of the file assigns one, and the pane objects never leave
  the closure; so each read yields \<^verbatim>\<open>undefined\<close>.
\<close>

definition pane_pixelSize :: "pane \<Rightarrow> jsval" where
  "pane_pixelSize p = Undefined"

definition pane_start :: "pane \<Rightarrow> jsval" where
  "pane_start p = Undefined"

definition pane_gutterSize :: "pane \<Rightarrow> jsval" where
  "pane_gutterSize p = Undefined"

text \<open>
  A bound function object made by \<^verbatim>\<open>drag.bind(this)\<close> or
  \<^verbatim>\<open>stopDragging.bind(this)\<close>: its identity (every \<^verbatim>\<open>bind\<close> makes a new object,
  and \<^verbatim>\<open>removeEventListener\<close> compares identities), the function bound and the
  \<^verbatim>\<open>gutterIndex\<close> of \<^verbatim>\<open>this\<close>.
\<close>

datatype handler = DragHandler | StopHandler

datatype listener = Bound nat handler nat

text \<open>
  A gutter object is pushed as \<^verbatim>\<open>{ el: gutterElement }\<close> (line 461); \<^verbatim>\<open>move\<close> and
  \<^verbatim>\<open>stop\<close> are added by startDragging and \<^verbatim>\<open>isDragging\<close> by stopDragging. \<open>None\<close>
  stands for an absent property and for \<^verbatim>\<open>null\<close>. The property \<^verbatim>\<open>size\<close> that
  widthBetween reads (line 200) is never assigned.
\<close>

record gutter =
  isDragging :: "bool option"
  move :: "listener option"
  stop :: "listener option"

definition gutter_size :: "gutter \<Rightarrow> jsval" where
  "gutter_size g = Undefined"

datatype evtype = MouseUp | TouchEnd | TouchCancel | MouseMove | TouchMove

datatype callback = OnDragStart | OnDrag | OnDragEnd

text \<open>
  A pair object: \<^verbatim>\<open>a\<close>, \<^verbatim>\<open>b\<close> and \<^verbatim>\<open>g\<close> from the literal, \<^verbatim>\<open>size\<close> and
  \<^verbatim>\<open>start\<close> once calculateSizes has stored them. The indices are integers, since
  the cascade decrements \<^verbatim>\<open>pair.a\<close> without a lower bound.
\<close>

record pair =
  a_idx :: int
  b_idx :: int
  g_idx :: "nat option"
  size_pr :: jsval
  start_pr :: jsval

text \<open>The options read after construction, and whether the browser is IE8 (line 18).\<close>

record config =
  gutterSize :: jsval
  snapOffset :: jsval
  pushablePanes :: bool
  direction :: split_direction
  isIE8 :: bool

text \<open>
  The state of one split: the closure variables \<^verbatim>\<open>panes\<close>, \<^verbatim>\<open>gutters\<close> and
  \<^verbatim>\<open>draggingGutter\<close> (a reference to a gutter object, held as its index, or
  \<^verbatim>\<open>null\<close>), and what the code does to its host: the listeners registered on
  \<^verbatim>\<open>window\<close> in registration order, the counter that names the next function object,
  the callbacks called so far, and the arguments of every call of \<^verbatim>\<open>elementStyle\<close>
  whose result was written to a pane's element (pane index, size, gutter size).
  The cursor and selection styles and \<^verbatim>\<open>preventDefault\<close> are left to the host, and a
  callback is taken not to call back into the split.
\<close>

record split =
  panes :: "pane list"
  gutters :: "gutter list"
  draggingGutter :: "nat option"
  listeners :: "(evtype \<times> listener) list"
  nextFn :: nat
  fired :: "callback list"
  applied :: "(nat \<times> jsval \<times> jsval) list"

text \<open>
  The layout engine: the rectangle it reports for the element of pane \<open>i\<close> after the
  given sequence of style writes.
\<close>

type_synonym host = "(nat \<times> jsval \<times> jsval) list \<Rightarrow> nat \<Rightarrow> bounds"

section \<open>Arrays\<close>

text \<open>\<^verbatim>\<open>xs[i]\<close> for an integer \<open>i\<close>: \<^verbatim>\<open>undefined\<close> outside the array.\<close>

definition pane_at :: "'a list \<Rightarrow> int \<Rightarrow> 'a option" where
  "pane_at xs i = (if 0 \<le> i \<and> i < int (length xs) then Some (xs ! nat i) else None)"

definition js_nth :: "jsval list \<Rightarrow> nat \<Rightarrow> jsval" where
  "js_nth xs i = (if i < length xs then xs ! i else Undefined)"

text \<open>
  \<^verbatim>\<open>xs.slice(start, end)\<close>: a negative index counts from the end, and both indices are
  clamped to the array.
\<close>

definition slice_index :: "nat \<Rightarrow> int \<Rightarrow> nat" where
  "slice_index len i = (if i < 0 then nat (max (int len + i) 0) else nat (min i (int len)))"

definition js_slice :: "'a list \<Rightarrow> int \<Rightarrow> int \<Rightarrow> 'a list" where
  "js_slice xs start end =
     take (slice_index (length xs) end - slice_index (length xs) start)
          (drop (slice_index (length xs) start) xs)"

section \<open>Sizing\<close>

text \<open>
  applyPaneSize (lines 176 to 188) computes the gutter share of the pane, calls
  \<^verbatim>\<open>elementStyle(dimension, size, gutSize)\<close> and writes the style to the element.
\<close>

definition applyPaneSize :: "config \<Rightarrow> nat \<Rightarrow> pane \<Rightarrow> split \<Rightarrow> split" where
  "applyPaneSize cfg i p st =
     st\<lparr>applied := applied st @
          [(i, psize p,
            if isFirst p \<or> isLast p then js_div (gutterSize cfg) (Num (Fin 2))
            else gutterSize cfg)]\<rparr>"

text \<open>widthBetween (lines 199 to 203).\<close>

definition widthBetween :: "gutter list \<Rightarrow> int \<Rightarrow> int \<Rightarrow> jsval" where
  "widthBetween gs start end =
     foldl (\<lambda>S g. js_add S (gutter_size g)) (Num (Fin 0)) (js_slice gs start end)"

text \<open>
  calculateSizes (lines 237 to 246), called on a pair object, which it updates. It
  raises when \<^verbatim>\<open>panes[this.a]\<close> or \<^verbatim>\<open>panes[this.b]\<close> is \<^verbatim>\<open>undefined\<close>. \<open>lay\<close>
  is the layout at the time of the call.
\<close>

definition calculateSizes ::
  "split_direction \<Rightarrow> (nat \<Rightarrow> bounds) \<Rightarrow> pane list \<Rightarrow> gutter list \<Rightarrow> pair \<Rightarrow> error + pair" where
  "calculateSizes d lay ps gs pr =
     (case pane_at ps (a_idx pr) of
        None \<Rightarrow> Inl TypeError
      | Some a \<Rightarrow>
          (case pane_at ps (b_idx pr) of
             None \<Rightarrow> Inl TypeError
           | Some b \<Rightarrow>
               Inr (pr\<lparr>size_pr :=
                          js_add (js_add (dimension d (lay (nat (a_idx pr))))
                                         (widthBetween gs (a_idx pr) (b_idx pr)))
                                 (dimension d (lay (nat (b_idx pr)))),
                        start_pr := position d (lay (nat (a_idx pr)))\<rparr>)))"

text \<open>
  adjust (lines 211 to 222), called on a pair with an offset. The two reads of
  \<^verbatim>\<open>size\<close> at line 214 raise before anything is written. The result is the
  exception raised, if any, and the state reached.
\<close>

definition set_size :: "nat \<Rightarrow> jsval \<Rightarrow> split \<Rightarrow> split" where
  "set_size i v st = st\<lparr>panes := (panes st)[i := (panes st ! i)\<lparr>psize := v\<rparr>]\<rparr>"

definition adjust :: "config \<Rightarrow> pair \<Rightarrow> jsval \<Rightarrow> split \<Rightarrow> error option \<times> split" where
  "adjust cfg pr offset st =
     (case pane_at (panes st) (a_idx pr) of
        None \<Rightarrow> (Some TypeError, st)
      | Some a \<Rightarrow>
          (case pane_at (panes st) (b_idx pr) of
             None \<Rightarrow> (Some TypeError, st)
           | Some b \<Rightarrow>
               (let percentage = js_add (psize a) (psize b);
                    pairSize = js_add (js_add (pane_pixelSize a)
                                              (widthBetween (gutters st) (a_idx pr) (b_idx pr)))
                                      (pane_pixelSize b);
                    st1 = set_size (nat (a_idx pr)) (js_mul (js_div offset pairSize) percentage) st;
                    st2 = set_size (nat (b_idx pr))
                            (js_sub percentage (js_mul (js_div offset pairSize) percentage)) st1;
                    st3 = applyPaneSize cfg (nat (a_idx pr)) (panes st2 ! nat (a_idx pr)) st2;
                    st4 = applyPaneSize cfg (nat (b_idx pr)) (panes st3 ! nat (b_idx pr)) st3
                in (None, st4))))"

section \<open>Dragging\<close>

text \<open>
  The pair literal that drag and startDragging build from \<^verbatim>\<open>this.gutterIndex\<close>
  (lines 263 to 267 and 360 to 364). It has no \<^verbatim>\<open>size\<close> and no \<^verbatim>\<open>start\<close>.
\<close>

definition gutter_pair :: "nat \<Rightarrow> pair" where
  "gutter_pair k =
     \<lparr>a_idx = int k, b_idx = int k + 1, g_idx = Some k,
      size_pr = Undefined, start_pr = Undefined\<rparr>"

text \<open>
  The event offset (lines 273 to 281): from \<^verbatim>\<open>touches[0]\<close> when the event has
  touches, which raises when there is no touch point, from the event itself otherwise.
\<close>

definition eventOffset :: "split_direction \<Rightarrow> event \<Rightarrow> pair \<Rightarrow> error + jsval" where
  "eventOffset d e pr =
     (case e of
        Touch ts \<Rightarrow>
          (case ts of
             [] \<Rightarrow> Inl TypeError
           | t # rest \<Rightarrow> Inr (js_sub (clientAxis d t) (start_pr pr)))
      | Mouse p \<Rightarrow> Inr (js_sub (clientAxis d p) (start_pr pr)))"

text \<open>
  The two loops of the pushable mode (lines 286 to 295). Neither loop changes what its
  condition reads from \<^verbatim>\<open>a\<close>, \<^verbatim>\<open>b\<close> and \<^verbatim>\<open>eventOffset\<close>, so a loop may run
  forever; not returning is the value \<open>None\<close>. The first loop carries the pair and
  \<^verbatim>\<open>pairOffset\<close>, the second the pair.
\<close>

partial_function (option) pushLeft ::
  "split_direction \<Rightarrow> (nat \<Rightarrow> bounds) \<Rightarrow> pane list \<Rightarrow> gutter list \<Rightarrow> pane \<Rightarrow> jsval \<Rightarrow>
   pair \<Rightarrow> jsval \<Rightarrow> (error + pair \<times> jsval) option" where
  "pushLeft d lay ps gs a evOff pr pairOffset =
     (if \<not> isFirst a \<and> js_lt evOff (js_add (pane_start a) (minSize a)) then
        (case (if js_not (size_pr pr) then calculateSizes d lay ps gs (pr\<lparr>a_idx := a_idx pr - 1\<rparr>)
               else Inr (pr\<lparr>a_idx := a_idx pr - 1\<rparr>)) of
           Inl err \<Rightarrow> Some (Inl err)
         | Inr pr' \<Rightarrow>
             pushLeft d lay ps gs a evOff pr'
               (js_add pairOffset (js_sub (js_sub (start_pr pr') (start_pr pr')) (minSize a))))
      else Some (Inr (pr, pairOffset)))"

partial_function (option) pushRight ::
  "split_direction \<Rightarrow> (nat \<Rightarrow> bounds) \<Rightarrow> pane list \<Rightarrow> gutter list \<Rightarrow> pane \<Rightarrow> jsval \<Rightarrow>
   pair \<Rightarrow> (error + pair) option" where
  "pushRight d lay ps gs b evOff pr =
     (if \<not> isLast b \<and> js_gt evOff (js_sub (size_pr pr) (minSize b)) then
        (case (if js_not (size_pr pr) then calculateSizes d lay ps gs (pr\<lparr>b_idx := b_idx pr + 1\<rparr>)
               else Inr (pr\<lparr>b_idx := b_idx pr + 1\<rparr>)) of
           Inl err \<Rightarrow> Some (Inl err)
         | Inr pr' \<Rightarrow> pushRight d lay ps gs b evOff pr')
      else Some (Inr pr))"

text \<open>
  The pushable block (lines 285 to 301). \<^verbatim>\<open>a\<close> and \<^verbatim>\<open>b\<close> are the panes of the
  pair as drag built it; reading \<^verbatim>\<open>a.isFirst\<close> or \<^verbatim>\<open>b.isLast\<close> raises when the pane
  is \<^verbatim>\<open>undefined\<close>.
\<close>

definition cascade ::
  "split_direction \<Rightarrow> (nat \<Rightarrow> bounds) \<Rightarrow> pane list \<Rightarrow> gutter list \<Rightarrow> jsval \<Rightarrow> pair \<Rightarrow>
   (error + pair \<times> jsval) option" where
  "cascade d lay ps gs evOff pr =
     (case pane_at ps (a_idx pr) of
        None \<Rightarrow> Some (Inl TypeError)
      | Some a \<Rightarrow>
          (case pushLeft d lay ps gs a evOff pr evOff of
             None \<Rightarrow> None
           | Some (Inl err) \<Rightarrow> Some (Inl err)
           | Some (Inr (pr1, pairOffset)) \<Rightarrow>
               (case pane_at ps (b_idx pr) of
                  None \<Rightarrow> Some (Inl TypeError)
                | Some b \<Rightarrow>
                    (case pushRight d lay ps gs b evOff pr1 of
                       None \<Rightarrow> None
                     | Some (Inl err) \<Rightarrow> Some (Inl err)
                     | Some (Inr pr2) \<Rightarrow>
                         (case calculateSizes d lay ps gs pr2 of
                            Inl err \<Rightarrow> Some (Inl err)
                          | Inr pr3 \<Rightarrow> Some (Inr (pr3, pairOffset)))))))"

text \<open>
  The snap step (lines 306 to 310), on the pair and the panes \<^verbatim>\<open>a\<close> and \<^verbatim>\<open>b\<close> the
  pair names after the pushable block.
\<close>

definition snapStep :: "jsval \<Rightarrow> pane list \<Rightarrow> pair \<Rightarrow> jsval \<Rightarrow> error + jsval" where
  "snapStep snapOff ps pr pairOffset =
     (case pane_at ps (a_idx pr) of
        None \<Rightarrow> Inl TypeError
      | Some a \<Rightarrow>
          if js_le pairOffset (js_add (js_add (minSize a) snapOff) (pane_gutterSize a))
          then Inr (js_add (minSize a) (pane_gutterSize a))
          else
            (case pane_at ps (b_idx pr) of
               None \<Rightarrow> Inl TypeError
             | Some b \<Rightarrow>
                 if js_ge pairOffset
                      (js_sub (size_pr pr)
                              (js_add (js_add (minSize b) snapOff) (pane_gutterSize b)))
                 then Inr (js_sub (size_pr pr) (js_add (minSize b) (pane_gutterSize b)))
                 else Inr pairOffset))"

definition fire :: "callback \<Rightarrow> split \<Rightarrow> split" where
  "fire c st = st\<lparr>fired := fired st @ [c]\<rparr>"

text \<open>
  drag (lines 262 to 318), bound to \<^verbatim>\<open>gutterIndex = k\<close>. Every exception is raised
  before the first write, so the state is returned as it was with it.
\<close>

definition drag :: "config \<Rightarrow> host \<Rightarrow> nat \<Rightarrow> event \<Rightarrow> split \<Rightarrow> (error option \<times> split) option" where
  "drag cfg hst k e st =
     (if draggingGutter st = None then Some (None, st)
      else
        (case eventOffset (direction cfg) e (gutter_pair k) of
           Inl err \<Rightarrow> Some (Some err, st)
         | Inr evOff \<Rightarrow>
             (case (if pushablePanes cfg
                    then cascade (direction cfg) (hst (applied st)) (panes st) (gutters st)
                           evOff (gutter_pair k)
                    else Some (Inr (gutter_pair k, evOff))) of
                None \<Rightarrow> None
              | Some (Inl err) \<Rightarrow> Some (Some err, st)
              | Some (Inr (pr, pairOffset)) \<Rightarrow>
                  (case snapStep (snapOffset cfg) (panes st) pr pairOffset of
                     Inl err \<Rightarrow> Some (Some err, st)
                   | Inr snapped \<Rightarrow>
                       (case adjust cfg pr snapped st of
                          (Some err, st') \<Rightarrow> Some (Some err, st')
                        | (None, st') \<Rightarrow> Some (None, fire OnDrag st'))))))"

section \<open>The drag session\<close>

text \<open>
  \<^verbatim>\<open>window.addEventListener\<close> registers a listener once for an event type;
  \<^verbatim>\<open>window.removeEventListener\<close> removes the same function object, and does nothing
  when given \<^verbatim>\<open>null\<close> or \<^verbatim>\<open>undefined\<close>.
\<close>

definition addEventListener ::
  "evtype \<Rightarrow> listener \<Rightarrow> (evtype \<times> listener) list \<Rightarrow> (evtype \<times> listener) list" where
  "addEventListener ty l reg = (if (ty, l) \<in> set reg then reg else reg @ [(ty, l)])"

definition removeEventListener ::
  "evtype \<Rightarrow> listener option \<Rightarrow> (evtype \<times> listener) list \<Rightarrow> (evtype \<times> listener) list" where
  "removeEventListener ty lo reg = (case lo of None \<Rightarrow> reg | Some l \<Rightarrow> remove1 (ty, l) reg)"

text \<open>
  startDragging (lines 359 to 408), bound to \<^verbatim>\<open>gutterIndex = k\<close>; it is the listener
  of \<^verbatim>\<open>mousedown\<close> and \<^verbatim>\<open>touchstart\<close> on the gutter's element (lines 456 and 457).
  \<^verbatim>\<open>draggingGutter\<close> is only ever compared with \<^verbatim>\<open>null\<close>, so the reference it
  receives is held as \<open>Some k\<close> also when \<^verbatim>\<open>gutters[k]\<close> is \<^verbatim>\<open>undefined\<close>; the write
  to \<^verbatim>\<open>g.move\<close> raises then. The last statement calls calculateSizes on the local
  pair, which is dropped when the function returns; it raises when a pane of the pair
  is missing, as the reads of \<^verbatim>\<open>a.el\<close> and \<^verbatim>\<open>b.el\<close> before it do.
\<close>

definition startDragging :: "config \<Rightarrow> host \<Rightarrow> nat \<Rightarrow> split \<Rightarrow> error option \<times> split" where
  "startDragging cfg hst k st =
     (let st1 = (if draggingGutter st = None then fire OnDragStart st else st);
          st2 = st1\<lparr>draggingGutter := Some k\<rparr>
      in if k < length (gutters st2) then
           (let mv = Bound (nextFn st2) DragHandler k;
                sp = Bound (nextFn st2 + 1) StopHandler k;
                st3 = st2\<lparr>gutters := (gutters st2)[k := (gutters st2 ! k)\<lparr>move := Some mv,
                                                                          stop := Some sp\<rparr>],
                         nextFn := nextFn st2 + 2,
                         listeners :=
                           addEventListener TouchMove mv
                             (addEventListener MouseMove mv
                               (addEventListener TouchCancel sp
                                 (addEventListener TouchEnd sp
                                   (addEventListener MouseUp sp (listeners st2)))))\<rparr>
            in (case calculateSizes (direction cfg) (hst (applied st3)) (panes st3)
                       (gutters st3) (gutter_pair k) of
                  Inl err \<Rightarrow> (Some err, st3)
                | Inr pr \<Rightarrow> (None, st3)))
         else (Some TypeError, st2))"

text \<open>
  stopDragging (lines 321 to 354), bound to \<^verbatim>\<open>gutterIndex = k\<close>. The write to
  \<^verbatim>\<open>g.isDragging\<close> raises when the gutter is missing, the reads of \<^verbatim>\<open>a.el\<close> and
  \<^verbatim>\<open>b.el\<close> when a pane is.
\<close>

definition stopDragging :: "config \<Rightarrow> nat \<Rightarrow> split \<Rightarrow> error option \<times> split" where
  "stopDragging cfg k st =
     (let st1 = (if draggingGutter st \<noteq> None then fire OnDragEnd st else st)
      in if k < length (gutters st1) then
           (let g = gutters st1 ! k;
                st2 = st1\<lparr>listeners :=
                           removeEventListener TouchMove (move g)
                             (removeEventListener MouseMove (move g)
                               (removeEventListener TouchCancel (stop g)
                                 (removeEventListener TouchEnd (stop g)
                                   (removeEventListener MouseUp (stop g) (listeners st1))))),
                         gutters := (gutters st1)[k := g\<lparr>isDragging := Some False,
                                                          stop := None, move := None\<rparr>]\<rparr>
            in if pane_at (panes st2) (int k) = None \<or> pane_at (panes st2) (int k + 1) = None
               then (Some TypeError, st2)
               else (None, st2))
         else (Some TypeError, st1))"

text \<open>
  Delivery of an event to \<^verbatim>\<open>window\<close>: the listeners registered for its type when the
  dispatch starts are called in registration order, each only if it is still registered
  when its turn comes. An exception of a listener is reported by the host and does not
  stop the dispatch.
\<close>

fun invoke :: "config \<Rightarrow> host \<Rightarrow> event \<Rightarrow> listener \<Rightarrow> split \<Rightarrow> (error option \<times> split) option" where
  "invoke cfg hst e (Bound i DragHandler k) st = drag cfg hst k e st"
| "invoke cfg hst e (Bound i StopHandler k) st = Some (stopDragging cfg k st)"

fun run_listeners ::
  "config \<Rightarrow> host \<Rightarrow> evtype \<Rightarrow> event \<Rightarrow> listener list \<Rightarrow> split \<Rightarrow> split option" where
  "run_listeners cfg hst ty e [] st = Some st"
| "run_listeners cfg hst ty e (l # ls) st =
     (if (ty, l) \<in> set (listeners st) then
        (case invoke cfg hst e l st of
           None \<Rightarrow> None
         | Some (err, st') \<Rightarrow> run_listeners cfg hst ty e ls st')
      else run_listeners cfg hst ty e ls st)"

definition deliver :: "config \<Rightarrow> host \<Rightarrow> evtype \<Rightarrow> event \<Rightarrow> split \<Rightarrow> split option" where
  "deliver cfg hst ty e st =
     run_listeners cfg hst ty e (map snd (filter (\<lambda>r. fst r = ty) (listeners st))) st"

section \<open>The public operations\<close>

text \<open>
  setSizes (lines 493 to 498): \<^verbatim>\<open>forEach\<close> over the new sizes. The argument is a
  JavaScript array, which may be sparse: an element is \<open>Some v\<close>, or \<open>None\<close> at a
  hole, and the length of the list is the array's \<^verbatim>\<open>length\<close>. \<^verbatim>\<open>forEach\<close> does not
  call its callback at a hole. The write to \<^verbatim>\<open>panes[i].size\<close> raises at the first
  element beyond the panes, after the earlier panes were written.
\<close>

fun setSizes_from ::
  "config \<Rightarrow> nat \<Rightarrow> jsval option list \<Rightarrow> split \<Rightarrow> error option \<times> split" where
  "setSizes_from cfg i [] st = (None, st)"
| "setSizes_from cfg i (None # rest) st = setSizes_from cfg (Suc i) rest st"
| "setSizes_from cfg i (Some newSize # rest) st =
     (if i < length (panes st) then
        (let st1 = set_size i newSize st
         in setSizes_from cfg (Suc i) rest (applyPaneSize cfg i (panes st1 ! i) st1))
      else (Some TypeError, st))"

definition setSizes :: "config \<Rightarrow> jsval option list \<Rightarrow> split \<Rightarrow> error option \<times> split" where
  "setSizes cfg newSizes st = setSizes_from cfg 0 newSizes st"

text \<open>What reading the elements of an array yields: \<^verbatim>\<open>undefined\<close> at a hole.\<close>

definition elements :: "jsval option list \<Rightarrow> jsval list" where
  "elements xs = map (\<lambda>x. case x of None \<Rightarrow> Undefined | Some v \<Rightarrow> v) xs"

text \<open>The size of a pane after setSizes: the element given for it, or the old size at a hole.\<close>

fun stored :: "jsval \<Rightarrow> jsval option \<Rightarrow> jsval" where
  "stored old None = old"
| "stored old (Some v) = v"

text \<open>getSizes (lines 518 to 520).\<close>

definition getSizes :: "split \<Rightarrow> jsval list" where
  "getSizes st = map psize (panes st)"

text \<open>
  collapse (lines 521 to 532), for an integer argument. The pair literal has no
  \<^verbatim>\<open>g\<close>, and adjust is called without an offset, so its parameter is
  \<^verbatim>\<open>undefined\<close>.
\<close>

definition collapse_pair :: "nat \<Rightarrow> int \<Rightarrow> pair" where
  "collapse_pair n i =
     \<lparr>a_idx = (if i = int n then i - 1 else i), b_idx = (if i = int n then i else i + 1),
      g_idx = None, size_pr = Undefined, start_pr = Undefined\<rparr>"

definition collapse :: "config \<Rightarrow> host \<Rightarrow> int \<Rightarrow> split \<Rightarrow> error option \<times> split" where
  "collapse cfg hst i st =
     (case calculateSizes (direction cfg) (hst (applied st)) (panes st) (gutters st)
             (collapse_pair (length (panes st)) i) of
        Inl err \<Rightarrow> (Some err, st)
      | Inr pr \<Rightarrow> if \<not> isIE8 cfg then adjust cfg pr Undefined st else (None, st))"

section \<open>Construction\<close>

text \<open>
  The options Split reads (lines 137 to 146). \<^verbatim>\<open>getOption\<close> (lines 48 to 54) returns
  the default for a property that is absent or \<^verbatim>\<open>undefined\<close>. \<^verbatim>\<open>minSize\<close> is a
  scalar or an array. The arrays are only read by index, and a hole reads as
  \<^verbatim>\<open>undefined\<close>, so a hole is given as \<open>Undefined\<close>.
\<close>

datatype minSize_option = MinScalar jsval | MinArray "jsval list"

record options =
  opt_sizes :: "jsval list option"
  opt_minSize :: minSize_option
  opt_gutterSize :: jsval
  opt_snapOffset :: jsval
  opt_pushablePanes :: "bool option"
  opt_direction :: "split_direction option"

definition getOption :: "jsval \<Rightarrow> jsval \<Rightarrow> jsval" where
  "getOption v def = (if v = Undefined then def else v)"

definition make_config :: "options \<Rightarrow> bool \<Rightarrow> config" where
  "make_config opts ie8 =
     \<lparr>gutterSize = getOption (opt_gutterSize opts) (Num (Fin 10)),
      snapOffset = getOption (opt_snapOffset opts) (Num (Fin 30)),
      pushablePanes = (case opt_pushablePanes opts of None \<Rightarrow> False | Some p \<Rightarrow> p),
      direction = (case opt_direction opts of None \<Rightarrow> Horizontal | Some d \<Rightarrow> d),
      isIE8 = ie8\<rparr>"

definition initial_sizes :: "options \<Rightarrow> nat \<Rightarrow> jsval list" where
  "initial_sizes opts n =
     (case opt_sizes opts of
        None \<Rightarrow> replicate n (Num (Fin (100 / real n)))
      | Some xs \<Rightarrow> xs)"

definition initial_minSizes :: "options \<Rightarrow> nat \<Rightarrow> jsval list" where
  "initial_minSizes opts n =
     (case opt_minSize opts of
        MinArray xs \<Rightarrow> xs
      | MinScalar v \<Rightarrow> replicate n (getOption v (Num (Fin 100))))"

text \<open>
  The callback of \<^verbatim>\<open>ids.map\<close> (lines 430 to 475) for the index \<open>i\<close> of \<open>n\<close>
  identifiers: it builds the pane, creates a gutter before every pane but the first
  unless the browser is IE8, applies the pane's size, measures the element and lowers
  \<^verbatim>\<open>minSize\<close> to the measured size when that is smaller.
\<close>

definition new_gutter :: gutter where
  "new_gutter = \<lparr>isDragging = None, move = None, stop = None\<rparr>"

fun createPanes ::
  "config \<Rightarrow> host \<Rightarrow> nat \<Rightarrow> jsval list \<Rightarrow> jsval list \<Rightarrow> nat list \<Rightarrow> split \<Rightarrow> split" where
  "createPanes cfg hst n sizes minSizes [] st = st"
| "createPanes cfg hst n sizes minSizes (i # rest) st =
     (let p = \<lparr>minSize = js_nth minSizes i, psize = js_nth sizes i,
               isFirst = (i = 0), isLast = (Suc i = n), isCollapsed = False\<rparr>;
          st1 = (if 0 < i \<and> \<not> isIE8 cfg then st\<lparr>gutters := gutters st @ [new_gutter]\<rparr> else st);
          st2 = applyPaneSize cfg i p st1;
          computedSize = dimension (direction cfg) (hst (applied st2) i);
          p' = (if js_lt computedSize (minSize p) then p\<lparr>minSize := computedSize\<rparr> else p)
      in createPanes cfg hst n sizes minSizes rest (st2\<lparr>panes := panes st2 @ [p']\<rparr>))"

definition empty_split :: split where
  "empty_split =
     \<lparr>panes = [], gutters = [], draggingGutter = None, listeners = [], nextFn = 0,
      fired = [], applied = []\<rparr>"

text \<open>
  Split (lines 122 to 536) for \<open>n\<close> identifiers, each taken to resolve to an element.
  Reading \<^verbatim>\<open>parentNode\<close> of the first element raises when there is none.
\<close>

definition Split :: "nat \<Rightarrow> options \<Rightarrow> bool \<Rightarrow> host \<Rightarrow> error + config \<times> split" where
  "Split n opts ie8 hst =
     (if n = 0 then Inl TypeError
      else Inr (make_config opts ie8,
                createPanes (make_config opts ie8) hst n (initial_sizes opts n)
                  (initial_minSizes opts n) [0..<n] empty_split))"

section \<open>The dragging state of a gutter\<close>

text \<open>
  The flag \<^verbatim>\<open>isDragging\<close> of a gutter is never set to \<^verbatim>\<open>true\<close>, so the dragging
  state of a gutter is read off what makes it answer events: the functions stored in its
  \<^verbatim>\<open>move\<close> and \<^verbatim>\<open>stop\<close> are registered on \<^verbatim>\<open>window\<close> for the two move events and
  the three stop events. A session is active on a gutter when \<^verbatim>\<open>draggingGutter\<close>
  references it and it is in the dragging state.
\<close>

definition dragging :: "nat \<Rightarrow> split \<Rightarrow> bool" where
  "dragging j st =
     (j < length (gutters st) \<and>
      (case move (gutters st ! j) of
         None \<Rightarrow> False
       | Some mv \<Rightarrow> (MouseMove, mv) \<in> set (listeners st) \<and> (TouchMove, mv) \<in> set (listeners st)) \<and>
      (case stop (gutters st ! j) of
         None \<Rightarrow> False
       | Some sp \<Rightarrow>
           (MouseUp, sp) \<in> set (listeners st) \<and> (TouchEnd, sp) \<in> set (listeners st) \<and>
           (TouchCancel, sp) \<in> set (listeners st)))"

definition session_on :: "nat \<Rightarrow> split \<Rightarrow> bool" where
  "session_on j st = (draggingGutter st = Some j \<and> dragging j st)"

text \<open>
  Every function object registered so far was made before the counter reached its
  present value, so the next two objects that \<^verbatim>\<open>bind\<close> makes are new.
\<close>

fun listener_id :: "listener \<Rightarrow> nat" where
  "listener_id (Bound i h k) = i"

definition known_functions :: "split \<Rightarrow> bool" where
  "known_functions st = list_all (\<lambda>r. listener_id (snd r) < nextFn st) (listeners st)"

section \<open>A split of three panes\<close>

text \<open>
  The scenario of the specification: three panes of sizes 33.3, 33.3 and 33.4 percent,
  a minimum of 100 pixels, gutters of 10 pixels, the default snap distance of 30 pixels,
  on a host that reports panes 290 pixels wide whose leading edges lie 300 pixels apart.
  \<open>demo_split\<close> is the state Split returns for it, \<open>demo_dragging\<close> the state
  after a pointer-down on the first gutter, \<open>demo_dragging_both\<close> the state after a
  further pointer-down on the second gutter, and \<open>demo_stopped\<close> the state after a
  pointer-down on the first gutter followed by a pointer-up.
\<close>

definition demo_host :: host where
  "demo_host writes i =
     \<lparr>rect_width = Num (Fin 290), rect_height = Num (Fin 600),
      rect_left = Num (Fin (300 * real i)), rect_top = Num (Fin 0)\<rparr>"

definition demo_options :: options where
  "demo_options =
     \<lparr>opt_sizes = Some [Num (Fin 33.3), Num (Fin 33.3), Num (Fin 33.4)],
      opt_minSize = MinScalar (Num (Fin 100)), opt_gutterSize = Num (Fin 10),
      opt_snapOffset = Undefined, opt_pushablePanes = None, opt_direction = None\<rparr>"

definition demo_config :: config where
  "demo_config =
     \<lparr>gutterSize = Num (Fin 10), snapOffset = Num (Fin 30), pushablePanes = False,
      direction = Horizontal, isIE8 = False\<rparr>"

definition demo_push_config :: config where
  "demo_push_config = demo_config\<lparr>pushablePanes := True\<rparr>"

definition demo_split :: split where
  "demo_split =
     \<lparr>panes =
        [\<lparr>minSize = Num (Fin 100), psize = Num (Fin 33.3), isFirst = True, isLast = False,
          isCollapsed = False\<rparr>,
         \<lparr>minSize = Num (Fin 100), psize = Num (Fin 33.3), isFirst = False, isLast = False,
          isCollapsed = False\<rparr>,
         \<lparr>minSize = Num (Fin 100), psize = Num (Fin 33.4), isFirst = False, isLast = True,
          isCollapsed = False\<rparr>],
      gutters = [new_gutter, new_gutter],
      draggingGutter = None, listeners = [], nextFn = 0, fired = [],
      applied = [(0, Num (Fin 33.3), Num (Fin 5)), (1, Num (Fin 33.3), Num (Fin 10)),
                 (2, Num (Fin 33.4), Num (Fin 5))]\<rparr>"

definition demo_dragging :: split where
  "demo_dragging =
     demo_split\<lparr>gutters := [\<lparr>isDragging = None, move = Some (Bound 0 DragHandler 0),
                               stop = Some (Bound 1 StopHandler 0)\<rparr>, new_gutter],
                draggingGutter := Some 0,
                listeners := [(MouseUp, Bound 1 StopHandler 0), (TouchEnd, Bound 1 StopHandler 0),
                              (TouchCancel, Bound 1 StopHandler 0),
                              (MouseMove, Bound 0 DragHandler 0),
                              (TouchMove, Bound 0 DragHandler 0)],
                nextFn := 2, fired := [OnDragStart]\<rparr>"

definition demo_dragging_both :: split where
  "demo_dragging_both =
     demo_split\<lparr>gutters := [\<lparr>isDragging = None, move = Some (Bound 0 DragHandler 0),
                               stop = Some (Bound 1 StopHandler 0)\<rparr>,
                              \<lparr>isDragging = None, move = Some (Bound 2 DragHandler 1),
                               stop = Some (Bound 3 StopHandler 1)\<rparr>],
                draggingGutter := Some 1,
                listeners := [(MouseUp, Bound 1 StopHandler 0), (TouchEnd, Bound 1 StopHandler 0),
                              (TouchCancel, Bound 1 StopHandler 0),
                              (MouseMove, Bound 0 DragHandler 0),
                              (TouchMove, Bound 0 DragHandler 0),
                              (MouseUp, Bound 3 StopHandler 1), (TouchEnd, Bound 3 StopHandler 1),
                              (TouchCancel, Bound 3 StopHandler 1),
                              (MouseMove, Bound 2 DragHandler 1),
                              (TouchMove, Bound 2 DragHandler 1)],
                nextFn := 4, fired := [OnDragStart]\<rparr>"

definition demo_stopped :: split where
  "demo_stopped =
     demo_split\<lparr>gutters := [\<lparr>isDragging = Some False, move = None, stop = None\<rparr>, new_gutter],
                draggingGutter := Some 0, nextFn := 2, fired := [OnDragStart, OnDragEnd]\<rparr>"

declare pushLeft.simps [code]

declare pushRight.simps [code]

section \<open>Arithmetic on NaN\<close>

lemma js_add_undef_right [simp]: "js_add x Undefined = Num NaN"
  by (cases "ToNumber x") (simp_all add: js_add_def)

lemma js_add_undef_left [simp]: "js_add Undefined y = Num NaN"
  by (simp add: js_add_def)

lemma js_add_nan_left [simp]: "js_add (Num NaN) y = Num NaN"
  by (simp add: js_add_def)

lemma js_add_nan_right [simp]: "js_add x (Num NaN) = Num NaN"
  by (cases "ToNumber x") (simp_all add: js_add_def)

lemma js_sub_nan_right [simp]: "js_sub x (Num NaN) = Num NaN"
  by (cases "ToNumber x") (simp_all add: js_sub_def num_sub_def)

lemma js_sub_nan_left [simp]: "js_sub (Num NaN) y = Num NaN"
  by (simp add: js_sub_def num_sub_def)

lemma js_sub_undef_right [simp]: "js_sub x Undefined = Num NaN"
  by (cases "ToNumber x") (simp_all add: js_sub_def num_sub_def)

lemma js_sub_undef_left [simp]: "js_sub Undefined y = Num NaN"
  by (simp add: js_sub_def num_sub_def)

lemma js_div_nan_right [simp]: "js_div x (Num NaN) = Num NaN"
  by (cases "ToNumber x") (simp_all add: js_div_def)

lemma js_mul_nan_left [simp]: "js_mul (Num NaN) y = Num NaN"
  by (simp add: js_mul_def)

lemma js_lt_nan_right [simp]: "js_lt x (Num NaN) = False"
  by (cases "ToNumber x") (simp_all add: js_lt_def)

lemma js_gt_nan_right [simp]: "js_gt x (Num NaN) = False"
  by (simp add: js_gt_def)

lemma js_le_nan_right [simp]: "js_le x (Num NaN) = False"
  by (cases "ToNumber x") (simp_all add: js_le_def)

lemma js_ge_nan_right [simp]: "js_ge x (Num NaN) = False"
  by (simp add: js_ge_def)

section \<open>The three-pane split is what Split builds\<close>

lemma gutter_pair_sel [simp]:
  "a_idx (gutter_pair k) = int k" "b_idx (gutter_pair k) = int k + 1"
  "size_pr (gutter_pair k) = Undefined" "start_pr (gutter_pair k) = Undefined"
  by (simp_all add: gutter_pair_def)

lemma upt3: "[0..<3] = [0, 1, 2]"
  by (simp add: upt_rec)

lemma demo_constructed: "Split 3 demo_options False demo_host = Inr (demo_config, demo_split)"
  by (simp add: Split_def make_config_def demo_options_def demo_config_def demo_split_def
      initial_sizes_def initial_minSizes_def getOption_def upt3 empty_split_def Let_def
      applyPaneSize_def js_nth_def demo_host_def js_lt_def js_div_def)

lemma demo_push_constructed:
  "Split 3 (demo_options\<lparr>opt_pushablePanes := Some True\<rparr>) False demo_host =
     Inr (demo_push_config, demo_split)"
  by (simp add: Split_def make_config_def demo_options_def demo_config_def demo_split_def
      initial_sizes_def initial_minSizes_def getOption_def upt3 empty_split_def Let_def
      applyPaneSize_def js_nth_def demo_host_def js_lt_def js_div_def demo_push_config_def)

lemma demo_started: "startDragging demo_config demo_host 0 demo_split = (None, demo_dragging)"
  by (simp add: startDragging_def demo_split_def demo_dragging_def demo_config_def Let_def
      fire_def addEventListener_def calculateSizes_def pane_at_def new_gutter_def)

lemma demo_facts [simp]:
  "length (panes demo_split) = 3" "length (panes demo_dragging) = 3"
  "getSizes demo_split = [Num (Fin 33.3), Num (Fin 33.3), Num (Fin 33.4)]"
  "getSizes demo_dragging = [Num (Fin 33.3), Num (Fin 33.3), Num (Fin 33.4)]"
  "draggingGutter demo_dragging = Some 0"
  by (simp_all add: demo_split_def demo_dragging_def getSizes_def)

lemma getSizes_applyPaneSize [simp]: "getSizes (applyPaneSize cfg i p st) = getSizes st"
  by (simp add: getSizes_def applyPaneSize_def)

lemma getSizes_set_size [simp]: "getSizes (set_size i v st) = (getSizes st)[i := v]"
  by (simp add: getSizes_def set_size_def map_update)

lemma getSizes_fire [simp]: "getSizes (fire c st) = getSizes st"
  by (simp add: getSizes_def fire_def)

section \<open>Geometry\<close>

text \<open>
  No gutter has a \<^verbatim>\<open>size\<close>, so the sum over a non-empty slice of gutters is NaN.
\<close>

lemma widthBetween_cases:
  "widthBetween gs s e = (if js_slice gs s e = [] then Num (Fin 0) else Num NaN)"
proof -
  have "foldl (\<lambda>S g. js_add S (gutter_size g)) v xs = (if xs = [] then v else Num NaN)" for v xs
    by (induction xs arbitrary: v) (simp_all add: gutter_size_def)
  then show ?thesis by (simp add: widthBetween_def)
qed

lemma calculateSizes_indices:
  "calculateSizes d lay ps gs pr = Inr pr' \<Longrightarrow> a_idx pr' = a_idx pr \<and> b_idx pr' = b_idx pr"
  by (auto simp: calculateSizes_def split: option.splits)

lemma calculateSizes_ok:
  "pane_at ps (a_idx pr) \<noteq> None \<Longrightarrow> pane_at ps (b_idx pr) \<noteq> None \<Longrightarrow>
   \<exists>pr'. calculateSizes d lay ps gs pr = Inr pr'"
  by (auto simp: calculateSizes_def split: option.splits)

text \<open>
  Claim C4: for every pair, calculateSizes caches as the pair's size the pixel extent of
  pane a, plus the pixel sizes of the gutters between a and b, plus the pixel extent of
  pane b, and as its start the leading edge of pane a.
  On the three-pane split the pair of the first gutter spans two panes of 290 pixels and
  one gutter of 10 pixels, so the claim gives the size 590. The code sums the property
  \<^verbatim>\<open>size\<close> of the gutter objects, which they do not have: the cached size is NaN.
  The cached start is the leading edge of pane a, as claimed.
\<close>

theorem calculateSizes_size_is_NaN:
  "calculateSizes Horizontal (demo_host (applied demo_split)) (panes demo_split)
     (gutters demo_split) (gutter_pair 0) =
     Inr ((gutter_pair 0)\<lparr>size_pr := Num NaN, start_pr := Num (Fin 0)\<rparr>)"
  by (simp add: calculateSizes_def pane_at_def demo_host_def widthBetween_cases js_slice_def
      slice_index_def demo_split_def)

section \<open>The adjuster\<close>

text \<open>
  adjust adds \<^verbatim>\<open>a.pixelSize\<close> and \<^verbatim>\<open>b.pixelSize\<close>, which no pane has, so its
  \<^verbatim>\<open>pairSize\<close> is NaN and so are both sizes it writes, whatever the offset. It reads
  nothing of the pair but the two indices.
\<close>

lemma adjust_sizes:
  assumes "pane_at (panes st) (a_idx pr) \<noteq> None" and "pane_at (panes st) (b_idx pr) \<noteq> None"
  shows "fst (adjust cfg pr off st) = None"
    and "getSizes (snd (adjust cfg pr off st)) =
           (getSizes st)[nat (a_idx pr) := Num NaN, nat (b_idx pr) := Num NaN]"
  using assms by (auto simp: adjust_def Let_def pane_pixelSize_def)

lemma adjust_depends_on_indices:
  "a_idx pr = a_idx pr' \<Longrightarrow> b_idx pr = b_idx pr' \<Longrightarrow>
   adjust cfg pr off st = adjust cfg pr' off' st"
  by (simp add: adjust_def Let_def pane_pixelSize_def split: option.splits)

text \<open>
  Claim C2: for every pair and every offset, adjust preserves the sum of the sizes of
  the two panes of the pair.
  On the three-pane split the first two panes hold 66.6 percent together. After adjust
  on the pair of the first gutter with the offset 400 both sizes are NaN, and so is
  their sum.
\<close>

theorem adjust_loses_pair_sum:
  "js_add (getSizes demo_split ! 0) (getSizes demo_split ! 1) = Num (Fin 66.6) \<and>
   getSizes (snd (adjust demo_config (gutter_pair 0) (Num (Fin 400)) demo_split)) =
     [Num NaN, Num NaN, Num (Fin 33.4)]"
  using adjust_sizes(2) [of demo_split "gutter_pair 0" demo_config "Num (Fin 400)"]
  by (simp add: pane_at_def js_add_def)

section \<open>The move handler\<close>

subsection \<open>The event offset\<close>

text \<open>
  drag subtracts \<^verbatim>\<open>pair.start\<close> of the pair literal it has just built, which has no
  \<^verbatim>\<open>start\<close>: the offset is NaN for every event that has a coordinate to read.
\<close>

lemma eventOffset_cases:
  "eventOffset d e (gutter_pair k) = (if e = Touch [] then Inl TypeError else Inr (Num NaN))"
  by (auto simp: eventOffset_def split: event.splits list.splits)

text \<open>
  Claim C3: on every move event of an active session, the raw offset is the pointer
  coordinate (of the first touch point for a touch event) minus the start that
  calculateSizes captured for the pair when the session began.
  On the three-pane split, a session on the second gutter captures the start 300, the
  leading edge of the second pane; calculateSizes stores it in the pair literal of
  startDragging, which is dropped on return. For a pointer at 400 the claim gives the
  offset 100. drag computes it from a new pair literal, and it is NaN.
\<close>

theorem drag_offset_ignores_cached_start:
  "calculateSizes Horizontal (demo_host (applied demo_split)) (panes demo_split)
     (gutters demo_split) (gutter_pair 1) =
     Inr ((gutter_pair 1)\<lparr>size_pr := Num NaN, start_pr := Num (Fin 300)\<rparr>) \<and>
   eventOffset Horizontal (Mouse \<lparr>clientX = Num (Fin 400), clientY = Num (Fin 0)\<rparr>)
     (gutter_pair 1) = Inr (Num NaN)"
  by (simp add: calculateSizes_def pane_at_def demo_host_def widthBetween_cases js_slice_def
      slice_index_def demo_split_def eventOffset_cases)

subsection \<open>The snap step\<close>

text \<open>
  Both comparisons of the snap step add \<^verbatim>\<open>panes[...].gutterSize\<close>, which no pane has,
  so both compare with NaN and fail: the step returns every offset as it is.
\<close>

lemma snapStep_id:
  "pane_at ps (a_idx pr) \<noteq> None \<Longrightarrow> pane_at ps (b_idx pr) \<noteq> None \<Longrightarrow>
   snapStep so ps pr off = Inr off"
  by (auto simp: snapStep_def pane_gutterSize_def)

lemma snapStep_missing_pane:
  "pane_at ps (a_idx pr) = None \<or> pane_at ps (b_idx pr) = None \<Longrightarrow>
   snapStep so ps pr off = Inl TypeError"
  by (auto simp: snapStep_def pane_gutterSize_def split: option.splits)

text \<open>
  Claim C5: on every move event the snap step clamps an offset of at most
  aMin + snapOffset + gutterSize to aMin + gutterSize, an offset of at least
  pairSize - (bMin + snapOffset + gutterSize) to pairSize - (bMin + gutterSize), and
  passes any other offset through.
  On the three-pane split, with a session on the first gutter and the pointer 50 pixels
  behind the leading edge of the first pane, the claim gives the offset 100 + 10 = 110.
  The offset that reaches the step is NaN, and the step returns it. Given the offset 50
  and the pair size 590 the step returns 50 as well.
\<close>

theorem snap_step_passes_offset_through:
  "eventOffset Horizontal (Mouse \<lparr>clientX = Num (Fin 50), clientY = Num (Fin 0)\<rparr>)
     (gutter_pair 0) = Inr (Num NaN) \<and>
   snapStep (snapOffset demo_config) (panes demo_dragging) (gutter_pair 0) (Num NaN) =
     Inr (Num NaN) \<and>
   snapStep (snapOffset demo_config) (panes demo_dragging)
     ((gutter_pair 0)\<lparr>size_pr := Num (Fin 590)\<rparr>) (Num (Fin 50)) = Inr (Num (Fin 50))"
  by (simp add: eventOffset_cases snapStep_id pane_at_def)

subsection \<open>The pushable mode\<close>

text \<open>
  The condition of the first loop compares with \<^verbatim>\<open>a.start + a.minSize\<close>, and no pane
  has a \<^verbatim>\<open>start\<close>; the condition of the second compares with
  \<^verbatim>\<open>pair.size - b.minSize\<close>, and the pair has no \<^verbatim>\<open>size\<close> yet. Both are false at
  once, whatever the offset, so the loops return and leave the pair as it was.
\<close>

lemma pushLeft_returns:
  "pushLeft d lay ps gs a evOff pr pairOffset = Some (Inr (pr, pairOffset))"
  by (subst pushLeft.simps) (simp add: pane_start_def)

lemma pushRight_fresh:
  "size_pr pr = Undefined \<Longrightarrow> pushRight d lay ps gs b evOff pr = Some (Inr pr)"
  by (subst pushRight.simps) simp

lemma cascade_keeps_pair:
  assumes "pane_at ps (int k) \<noteq> None" and "pane_at ps (int k + 1) \<noteq> None"
  shows "\<exists>pr'. cascade d lay ps gs evOff (gutter_pair k) = Some (Inr (pr', evOff)) \<and>
               a_idx pr' = int k \<and> b_idx pr' = int k + 1"
proof -
  obtain pr' where c: "calculateSizes d lay ps gs (gutter_pair k) = Inr pr'"
    using calculateSizes_ok [of ps "gutter_pair k" d lay gs] assms by auto
  from calculateSizes_indices [OF c] have "a_idx pr' = int k \<and> b_idx pr' = int k + 1"
    by simp
  moreover have "cascade d lay ps gs evOff (gutter_pair k) = Some (Inr (pr', evOff))"
    using assms c by (auto simp: cascade_def pushLeft_returns pushRight_fresh split: option.splits)
  ultimately show ?thesis by blast
qed

lemma cascade_missing_pane:
  "pane_at ps (int k) = None \<or> pane_at ps (int k + 1) = None \<Longrightarrow>
   cascade d lay ps gs evOff (gutter_pair k) = Some (Inl TypeError)"
  by (auto simp: cascade_def pushLeft_returns split: option.splits)

subsection \<open>drag\<close>

text \<open>
  drag always returns. With no session it does nothing; it raises for a touch event
  without a touch point and for a gutter without its two panes; otherwise it hands NaN
  to adjust, on the pair of the gutter's two panes, and calls \<^verbatim>\<open>onDrag\<close>.
\<close>

lemma drag_active:
  assumes act: "draggingGutter st \<noteq> None"
    and a: "pane_at (panes st) (int k) \<noteq> None" and b: "pane_at (panes st) (int k + 1) \<noteq> None"
    and e: "e \<noteq> Touch []"
  shows "\<exists>pr. a_idx pr = int k \<and> b_idx pr = int k + 1 \<and>
           drag cfg hst k e st = Some (None, fire OnDrag (snd (adjust cfg pr (Num NaN) st)))"
proof (cases "pushablePanes cfg")
  case True
  obtain pr' where c: "cascade (direction cfg) (hst (applied st)) (panes st) (gutters st)
                         (Num NaN) (gutter_pair k) = Some (Inr (pr', Num NaN))"
    and i: "a_idx pr' = int k" "b_idx pr' = int k + 1"
    using cascade_keeps_pair [OF a b] by blast
  have s: "snapStep (snapOffset cfg) (panes st) pr' (Num NaN) = Inr (Num NaN)"
    using a b i by (simp add: snapStep_id)
  have f: "fst (adjust cfg pr' (Num NaN) st) = None"
    using adjust_sizes(1) [of st pr'] a b i by simp
  have "drag cfg hst k e st = Some (None, fire OnDrag (snd (adjust cfg pr' (Num NaN) st)))"
    using act e True c s f
    by (cases "adjust cfg pr' (Num NaN) st") (auto simp: drag_def eventOffset_cases)
  with i show ?thesis by blast
next
  case False
  have s: "snapStep (snapOffset cfg) (panes st) (gutter_pair k) (Num NaN) = Inr (Num NaN)"
    using a b by (simp add: snapStep_id)
  have f: "fst (adjust cfg (gutter_pair k) (Num NaN) st) = None"
    using adjust_sizes(1) [of st "gutter_pair k"] a b by simp
  have "drag cfg hst k e st =
          Some (None, fire OnDrag (snd (adjust cfg (gutter_pair k) (Num NaN) st)))"
    using act e False s f
    by (cases "adjust cfg (gutter_pair k) (Num NaN) st") (auto simp: drag_def eventOffset_cases)
  then show ?thesis by (intro exI [of _ "gutter_pair k"]) simp
qed

lemma drag_cases:
  "drag cfg hst k e st =
     Some (if draggingGutter st = None then (None, st)
           else if e = Touch [] \<or> length (panes st) \<le> Suc k then (Some TypeError, st)
           else (None, fire OnDrag (snd (adjust cfg (gutter_pair k) (Num NaN) st))))"
proof (cases "draggingGutter st = None \<or> e = Touch []")
  case True
  then show ?thesis by (auto simp: drag_def eventOffset_cases)
next
  case False
  then have act: "draggingGutter st \<noteq> None" and e: "e \<noteq> Touch []" by simp_all
  show ?thesis
  proof (cases "Suc k < length (panes st)")
    case True
    then have a: "pane_at (panes st) (int k) \<noteq> None"
      and b: "pane_at (panes st) (int k + 1) \<noteq> None"
      by (simp_all add: pane_at_def)
    obtain pr where i: "a_idx pr = int k" "b_idx pr = int k + 1"
      and d: "drag cfg hst k e st = Some (None, fire OnDrag (snd (adjust cfg pr (Num NaN) st)))"
      using drag_active [OF act a b e] by blast
    have "adjust cfg pr (Num NaN) st = adjust cfg (gutter_pair k) (Num NaN) st"
      using i by (intro adjust_depends_on_indices) simp_all
    with d act e True show ?thesis by auto
  next
    case False
    then have m: "pane_at (panes st) (int k) = None \<or> pane_at (panes st) (int k + 1) = None"
      by (auto simp: pane_at_def)
    then have "snapStep (snapOffset cfg) (panes st) (gutter_pair k) (Num NaN) = Inl TypeError"
      by (intro snapStep_missing_pane) simp
    with act e False cascade_missing_pane [OF m] show ?thesis
      by (simp add: drag_def eventOffset_cases)
  qed
qed

lemma drag_sizes:
  assumes act: "draggingGutter st \<noteq> None"
    and k: "Suc k < length (panes st)"
    and e: "e \<noteq> Touch []"
  shows "\<exists>st'. drag cfg hst k e st = Some (None, st') \<and>
           getSizes st' = (getSizes st)[k := Num NaN, Suc k := Num NaN]"
proof -
  have "pane_at (panes st) (a_idx (gutter_pair k)) \<noteq> None"
    "pane_at (panes st) (b_idx (gutter_pair k)) \<noteq> None"
    using k by (simp_all add: pane_at_def)
  from adjust_sizes(2) [OF this, of cfg "Num NaN"] act k e show ?thesis
    by (auto simp: drag_cases nat_add_distrib)
qed

text \<open>The sizes of the panes that are not next to the gutter stay as they were.\<close>

lemma drag_frame:
  assumes "drag cfg hst k e st = Some (err, st')" and "j \<noteq> k" and "j \<noteq> Suc k"
  shows "getSizes st' ! j = getSizes st ! j"
proof (cases "draggingGutter st \<noteq> None \<and> e \<noteq> Touch [] \<and> Suc k < length (panes st)")
  case True
  then have "pane_at (panes st) (a_idx (gutter_pair k)) \<noteq> None"
    "pane_at (panes st) (b_idx (gutter_pair k)) \<noteq> None"
    by (simp_all add: pane_at_def)
  from adjust_sizes(2) [OF this, of cfg "Num NaN"] assms True show ?thesis
    by (auto simp: drag_cases nat_add_distrib)
next
  case False
  with assms show ?thesis by (auto simp: drag_cases split: if_splits)
qed

lemma startDragging_guard: "draggingGutter (snd (startDragging cfg hst k st)) = Some k"
  by (simp add: startDragging_def Let_def split: sum.splits)

lemma startDragging_panes: "panes (snd (startDragging cfg hst k st)) = panes st"
  by (simp add: startDragging_def Let_def fire_def split: sum.splits)

text \<open>
  Claim C1: every move event on the gutter between panes a and b changes only the sizes
  of a and b, in proportion to offset / pairSize, and leaves the size of every other pane
  as it was.
  On the three-pane split, with a session on the first gutter and the pointer at 400,
  the size of the third pane stays 33.4, as claimed, but the sizes of the first two
  panes become NaN, not a share of their 66.6 percent.
\<close>

theorem drag_first_gutter_yields_NaN:
  "map_option (\<lambda>r. (fst r, getSizes (snd r)))
     (drag demo_config demo_host 0 (Mouse \<lparr>clientX = Num (Fin 400), clientY = Num (Fin 0)\<rparr>)
        demo_dragging) =
   Some (None, [Num NaN, Num NaN, Num (Fin 33.4)])"
  using drag_sizes [of demo_dragging 0 "Mouse \<lparr>clientX = Num (Fin 400), clientY = Num (Fin 0)\<rparr>"
      demo_config demo_host]
  by auto

text \<open>
  Claim C6: in the pushable mode, while the raw offset would drive pane a below its
  minimum and a is not the first pane, the left index of the pair is decremented and the
  geometry recomputed, and likewise for b and the right index; the cascade stays within
  the split, and afterwards no pane is smaller than its minimum unless the minimum
  exceeds the space there is.
  On the three-pane split in the pushable mode, with a session on the second gutter and
  the pointer at 100, that is 200 pixels before the leading edge of the second pane, the
  claim widens the pair to the first pane. The pushable block keeps the pair of panes 1 and
  2, for the NaN offset that drag gives it and for the offset - 200 alike, and drag
  writes NaN to the sizes of panes 1 and 2 and leaves the first pane alone.
\<close>

theorem cascade_never_widens:
  "map_option (map_sum id (\<lambda>r. (a_idx (fst r), b_idx (fst r))))
     (cascade Horizontal (demo_host (applied demo_split)) (panes demo_split)
        (gutters demo_split) (Num NaN) (gutter_pair 1)) = Some (Inr (1, 2)) \<and>
   map_option (map_sum id (\<lambda>r. (a_idx (fst r), b_idx (fst r))))
     (cascade Horizontal (demo_host (applied demo_split)) (panes demo_split)
        (gutters demo_split) (Num (Fin (- 200))) (gutter_pair 1)) = Some (Inr (1, 2)) \<and>
   map_option (\<lambda>r. (fst r, getSizes (snd r)))
     (drag demo_push_config demo_host 1
        (Mouse \<lparr>clientX = Num (Fin 100), clientY = Num (Fin 0)\<rparr>)
        (snd (startDragging demo_push_config demo_host 1 demo_split))) =
     Some (None, [Num (Fin 33.3), Num NaN, Num NaN])"
proof -
  let ?st = "snd (startDragging demo_push_config demo_host 1 demo_split)"
  have p: "pane_at (panes demo_split) (int 1) \<noteq> None"
    "pane_at (panes demo_split) (int 1 + 1) \<noteq> None"
    by (simp_all add: pane_at_def)
  have "draggingGutter ?st \<noteq> None" "Suc 1 < length (panes ?st)"
    "getSizes ?st = getSizes demo_split"
    by (simp_all add: startDragging_guard startDragging_panes getSizes_def)
  with drag_sizes [of ?st 1 "Mouse \<lparr>clientX = Num (Fin 100), clientY = Num (Fin 0)\<rparr>"
      demo_push_config demo_host]
    cascade_keeps_pair [OF p, of Horizontal "demo_host (applied demo_split)"
      "gutters demo_split" "Num NaN"]
    cascade_keeps_pair [OF p, of Horizontal "demo_host (applied demo_split)"
      "gutters demo_split" "Num (Fin (- 200))"]
  show ?thesis by auto
qed

section \<open>collapse\<close>

text \<open>
  For a pane that has a right neighbour and a browser other than IE8, collapse writes
  NaN to the sizes of the pane and of the neighbour. For the last pane, and for the
  index that equals the number of panes, the pair names a pane beyond the last one and
  calculateSizes raises.
\<close>

lemma collapse_sizes:
  assumes i: "0 \<le> i" "i + 1 < int (length (panes st))" and ie: "\<not> isIE8 cfg"
  shows "fst (collapse cfg hst i st) = None \<and>
         getSizes (snd (collapse cfg hst i st)) =
           (getSizes st)[nat i := Num NaN, nat (i + 1) := Num NaN]"
proof -
  let ?pr = "collapse_pair (length (panes st)) i"
  have ab: "a_idx ?pr = i" "b_idx ?pr = i + 1"
    using i by (simp_all add: collapse_pair_def)
  have a: "pane_at (panes st) (a_idx ?pr) \<noteq> None"
    and b: "pane_at (panes st) (b_idx ?pr) \<noteq> None"
    using i ab by (simp_all add: pane_at_def)
  obtain pr' where c: "calculateSizes (direction cfg) (hst (applied st)) (panes st)
                         (gutters st) ?pr = Inr pr'"
    using calculateSizes_ok [OF a b] by blast
  from calculateSizes_indices [OF c] ab have ab': "a_idx pr' = i" "b_idx pr' = i + 1"
    by simp_all
  have "pane_at (panes st) (a_idx pr') \<noteq> None" "pane_at (panes st) (b_idx pr') \<noteq> None"
    using a b ab ab' by simp_all
  from adjust_sizes [OF this, of cfg Undefined] show ?thesis
    using c ie ab' by (simp add: collapse_def)
qed

lemma collapse_last_raises:
  assumes "i = int (length (panes st)) - 1 \<or> i = int (length (panes st))"
  shows "collapse cfg hst i st = (Some TypeError, st)"
  using assms by (auto simp: collapse_def collapse_pair_def calculateSizes_def pane_at_def
      split: option.splits)

text \<open>
  Claim C7: for every valid index i, collapse builds the pair of pane i and its
  neighbour, recomputes the geometry and calls adjust with the minimum extent of the
  boundary pane as offset, so that pane i ends at its minimum size, the neighbour takes
  the freed percentage and the sum of the pair is kept.
  On the three-pane split, collapse of the first pane calls adjust without an offset and
  leaves NaN in the sizes of the first two panes; collapse of the last pane raises a
  TypeError and changes nothing.
\<close>

theorem collapse_yields_NaN:
  "fst (collapse demo_config demo_host 0 demo_split) = None \<and>
   getSizes (snd (collapse demo_config demo_host 0 demo_split)) =
     [Num NaN, Num NaN, Num (Fin 33.4)] \<and>
   collapse demo_config demo_host 2 demo_split = (Some TypeError, demo_split)"
  using collapse_sizes [of 0 demo_split demo_config demo_host]
    collapse_last_raises [of 2 demo_split demo_config demo_host]
  by (simp add: demo_config_def)

section \<open>Sessions\<close>

lemma set_addEventListener: "set (addEventListener ty l reg) = insert (ty, l) (set reg)"
  by (auto simp: addEventListener_def)

lemma stopDragging_keeps_guard:
  "draggingGutter (snd (stopDragging cfg k st)) = draggingGutter st"
  by (simp add: stopDragging_def Let_def fire_def)

lemma deliver_without_listener:
  "filter (\<lambda>r. fst r = ty) (listeners st) = [] \<Longrightarrow> deliver cfg hst ty e st = Some st"
  by (simp add: deliver_def)

text \<open>
  Claim C8, as stated: at most one gutter is in the dragging state; a pointer-down on a
  second gutter while a session is active is ignored, starts no second session and does
  not rebind the session to the new gutter.
  On the three-pane split, a pointer-down on the first gutter followed by a pointer-down
  on the second leaves \<^verbatim>\<open>draggingGutter\<close> on the second gutter, with the move and
  stop listeners of both gutters registered.
\<close>

theorem second_pointer_down_rebinds:
  "startDragging demo_config demo_host 0 demo_split = (None, demo_dragging) \<and>
   draggingGutter demo_dragging = Some 0 \<and>
   startDragging demo_config demo_host 1 demo_dragging = (None, demo_dragging_both) \<and>
   draggingGutter demo_dragging_both = Some 1 \<and>
   listeners demo_dragging_both =
     listeners demo_dragging @
       [(MouseUp, Bound 3 StopHandler 1), (TouchEnd, Bound 3 StopHandler 1),
        (TouchCancel, Bound 3 StopHandler 1), (MouseMove, Bound 2 DragHandler 1),
        (TouchMove, Bound 2 DragHandler 1)]"
  by (simp add: startDragging_def demo_split_def demo_dragging_def demo_dragging_both_def
      demo_config_def Let_def fire_def addEventListener_def calculateSizes_def pane_at_def
      new_gutter_def)

text \<open>
  The function objects that startDragging makes are new, so the five registrations add
  five entries behind those that were there.
\<close>

lemma fresh_not_registered:
  "known_functions st \<Longrightarrow> nextFn st \<le> i \<Longrightarrow> (ty, Bound i h k) \<notin> set (listeners st)"
  by (auto simp: known_functions_def list_all_iff)

lemma startDragging_state:
  assumes kf: "known_functions st" and k: "k < length (gutters st)"
    and p: "Suc k < length (panes st)"
  shows "startDragging cfg hst k st =
    (None,
     (if draggingGutter st = None then fire OnDragStart st else st)
       \<lparr>draggingGutter := Some k,
        gutters := (gutters st)[k := (gutters st ! k)
                      \<lparr>move := Some (Bound (nextFn st) DragHandler k),
                       stop := Some (Bound (nextFn st + 1) StopHandler k)\<rparr>],
        nextFn := nextFn st + 2,
        listeners := listeners st @
          [(MouseUp, Bound (nextFn st + 1) StopHandler k),
           (TouchEnd, Bound (nextFn st + 1) StopHandler k),
           (TouchCancel, Bound (nextFn st + 1) StopHandler k),
           (MouseMove, Bound (nextFn st) DragHandler k),
           (TouchMove, Bound (nextFn st) DragHandler k)]\<rparr>)"
proof -
  have f: "(ty, Bound (nextFn st) h k) \<notin> set (listeners st)"
    "(ty, Bound (Suc (nextFn st)) h k) \<notin> set (listeners st)" for ty h
    using fresh_not_registered [OF kf] by simp_all
  have "pane_at (panes st) (int k) \<noteq> None" "pane_at (panes st) (int k + 1) \<noteq> None"
    using p by (simp_all add: pane_at_def)
  then show ?thesis
    using k f
    by (auto simp: startDragging_def Let_def calculateSizes_def addEventListener_def fire_def
        split: option.splits)
qed

text \<open>The assumption on the function objects holds of every state the code reaches.\<close>

lemma createPanes_listeners:
  "listeners (createPanes cfg hst n sizes minSizes is st) = listeners st \<and>
   nextFn (createPanes cfg hst n sizes minSizes is st) = nextFn st"
  by (induction "is" arbitrary: st) (simp_all add: Let_def applyPaneSize_def)

lemma known_functions_Split:
  "Split n opts ie8 hst = Inr (cfg, st) \<Longrightarrow> known_functions st"
  by (auto simp: Split_def known_functions_def createPanes_listeners empty_split_def
      split: if_splits)

lemma known_functions_startDragging:
  "known_functions st \<Longrightarrow> known_functions (snd (startDragging cfg hst k st))"
  by (auto simp: startDragging_def Let_def known_functions_def list_all_iff fire_def
      set_addEventListener split: sum.splits)

lemma known_functions_stopDragging:
  "known_functions st \<Longrightarrow> known_functions (snd (stopDragging cfg k st))"
  by (auto simp: stopDragging_def Let_def known_functions_def list_all_iff fire_def
      removeEventListener_def split: option.splits dest: notin_set_remove1)

lemma adjust_listeners:
  "listeners (snd (adjust cfg pr off st)) = listeners st \<and>
   nextFn (snd (adjust cfg pr off st)) = nextFn st"
  by (simp add: adjust_def Let_def applyPaneSize_def set_size_def split: option.splits)

lemma known_functions_drag:
  "known_functions st \<Longrightarrow> drag cfg hst k e st = Some (err, st') \<Longrightarrow> known_functions st'"
  by (auto simp: drag_cases known_functions_def fire_def adjust_listeners split: if_splits)

text \<open>
  Claim C8, amended: a pointer-down on another gutter while a session is active on a
  gutter is not ignored. It does not call \<^verbatim>\<open>onDragStart\<close>, but it rebinds
  \<^verbatim>\<open>draggingGutter\<close> to the gutter pressed and registers new move and stop listeners
  for it behind those that were registered; afterwards both gutters are in the dragging
  state.
\<close>

theorem pointer_down_on_other_gutter:
  assumes "session_on j st" and "known_functions st" and "k \<noteq> j"
    and "k < length (gutters st)" and "Suc k < length (panes st)"
  shows "fst (startDragging cfg hst k st) = None \<and>
         fired (snd (startDragging cfg hst k st)) = fired st \<and>
         draggingGutter (snd (startDragging cfg hst k st)) = Some k \<and>
         listeners (snd (startDragging cfg hst k st)) =
           listeners st @
             [(MouseUp, Bound (nextFn st + 1) StopHandler k),
              (TouchEnd, Bound (nextFn st + 1) StopHandler k),
              (TouchCancel, Bound (nextFn st + 1) StopHandler k),
              (MouseMove, Bound (nextFn st) DragHandler k),
              (TouchMove, Bound (nextFn st) DragHandler k)] \<and>
         set [(MouseUp, Bound (nextFn st + 1) StopHandler k),
              (TouchEnd, Bound (nextFn st + 1) StopHandler k),
              (TouchCancel, Bound (nextFn st + 1) StopHandler k),
              (MouseMove, Bound (nextFn st) DragHandler k),
              (TouchMove, Bound (nextFn st) DragHandler k)] \<inter> set (listeners st) = {} \<and>
         dragging j (snd (startDragging cfg hst k st)) \<and>
         dragging k (snd (startDragging cfg hst k st))"
proof -
  have act: "draggingGutter st = Some j" and dj: "dragging j st"
    using assms(1) by (simp_all add: session_on_def)
  have f: "(ty, Bound (nextFn st) h k) \<notin> set (listeners st)"
    "(ty, Bound (Suc (nextFn st)) h k) \<notin> set (listeners st)" for ty h
    using fresh_not_registered [OF assms(2)] by simp_all
  note s = startDragging_state [OF assms(2,4,5), of cfg hst]
  have "dragging j (snd (startDragging cfg hst k st))"
    using dj assms(3) by (auto simp: s dragging_def split: option.splits)
  moreover have "dragging k (snd (startDragging cfg hst k st))"
    using assms(4) by (simp add: s dragging_def)
  ultimately show ?thesis
    using act f by (simp add: s)
qed

theorem pointer_down_on_other_gutter_witness:
  "session_on 0 demo_dragging \<and> known_functions demo_dragging \<and> (1::nat) \<noteq> 0 \<and>
   1 < length (gutters demo_dragging) \<and> Suc 1 < length (panes demo_dragging) \<and>
   fst (startDragging demo_config demo_host 1 demo_dragging) = None \<and>
   fired (snd (startDragging demo_config demo_host 1 demo_dragging)) = [OnDragStart] \<and>
   draggingGutter (snd (startDragging demo_config demo_host 1 demo_dragging)) = Some 1 \<and>
   listeners (snd (startDragging demo_config demo_host 1 demo_dragging)) =
     [(MouseUp, Bound 1 StopHandler 0), (TouchEnd, Bound 1 StopHandler 0),
      (TouchCancel, Bound 1 StopHandler 0), (MouseMove, Bound 0 DragHandler 0),
      (TouchMove, Bound 0 DragHandler 0),
      (MouseUp, Bound 3 StopHandler 1), (TouchEnd, Bound 3 StopHandler 1),
      (TouchCancel, Bound 3 StopHandler 1), (MouseMove, Bound 2 DragHandler 1),
      (TouchMove, Bound 2 DragHandler 1)] \<and>
   dragging 0 (snd (startDragging demo_config demo_host 1 demo_dragging)) \<and>
   dragging 1 (snd (startDragging demo_config demo_host 1 demo_dragging))"
proof -
  have h: "session_on 0 demo_dragging" "known_functions demo_dragging" "(1::nat) \<noteq> 0"
    "1 < length (gutters demo_dragging)" "Suc 1 < length (panes demo_dragging)"
    by (simp_all add: session_on_def dragging_def known_functions_def demo_dragging_def
        demo_split_def)
  show ?thesis
    using h pointer_down_on_other_gutter [OF h, of demo_config demo_host]
    by (simp add: demo_dragging_def demo_split_def)
qed

text \<open>
  The hypothesis of an active session leaves out the idle split after a stop event,
  where \<^verbatim>\<open>draggingGutter\<close> still holds a gutter. With both gutters in the dragging
  state, one move event runs the move handlers of both and rewrites all three sizes.
\<close>

lemma no_session_after_stop: "\<not> session_on j demo_stopped"
  by (cases j) (simp_all add: session_on_def dragging_def demo_stopped_def demo_split_def)

lemma move_event_drags_both_gutters:
  "map_option getSizes
     (deliver demo_config demo_host MouseMove
        (Mouse \<lparr>clientX = Num (Fin 400), clientY = Num (Fin 0)\<rparr>) demo_dragging_both) =
   Some [Num NaN, Num NaN, Num NaN]"
  by (simp add: deliver_def drag_cases demo_dragging_both_def demo_split_def adjust_def
      pane_at_def Let_def set_size_def applyPaneSize_def fire_def getSizes_def
      pane_pixelSize_def)

text \<open>
  Claim C9: every stop event of a session detaches the move and stop listeners, clears
  the session reference, so that \<^verbatim>\<open>draggingGutter\<close> holds no gutter, and calls
  \<^verbatim>\<open>onDragEnd\<close> once; a second stop event, or one without a session, does nothing
  more.
  On the three-pane split, a pointer-down on the first gutter followed by a pointer-up
  detaches the listeners and calls \<^verbatim>\<open>onDragEnd\<close> once, and a second pointer-up changes
  nothing, as claimed; but \<^verbatim>\<open>draggingGutter\<close> still holds the first gutter, and the
  next pointer-down does not call \<^verbatim>\<open>onDragStart\<close>.
\<close>

theorem stop_keeps_session_reference:
  "deliver demo_config demo_host MouseUp (Mouse \<lparr>clientX = Num (Fin 400), clientY = Num (Fin 0)\<rparr>)
     demo_dragging = Some demo_stopped \<and>
   draggingGutter demo_stopped = Some 0 \<and>
   listeners demo_stopped = [] \<and>
   fired demo_stopped = [OnDragStart, OnDragEnd] \<and>
   deliver demo_config demo_host MouseUp (Mouse \<lparr>clientX = Num (Fin 400), clientY = Num (Fin 0)\<rparr>)
     demo_stopped = Some demo_stopped \<and>
   fired (snd (startDragging demo_config demo_host 0 demo_stopped)) = [OnDragStart, OnDragEnd]"
  by (simp add: deliver_def stopDragging_def startDragging_def demo_split_def demo_dragging_def
      demo_stopped_def demo_config_def Let_def fire_def removeEventListener_def pane_at_def
      new_gutter_def calculateSizes_def)

section \<open>setSizes and getSizes\<close>

text \<open>
  For an array of as many elements as there are panes, setSizes does not raise, and
  afterwards every pane has the size of its element, or the size it had where the array
  has a hole.
\<close>

lemma setSizes_from_sizes:
  "i + length xs = length (panes st) \<Longrightarrow>
   fst (setSizes_from cfg i xs st) = None \<and>
   getSizes (snd (setSizes_from cfg i xs st)) =
     take i (getSizes st) @ map2 stored (drop i (getSizes st)) xs"
proof (induction xs arbitrary: i st)
  case Nil
  then show ?case by (simp add: getSizes_def)
next
  case (Cons x xs)
  have i: "i < length (getSizes st)" using Cons.prems by (simp add: getSizes_def)
  have d: "drop i (getSizes st) = getSizes st ! i # drop (Suc i) (getSizes st)"
    using i by (simp add: Cons_nth_drop_Suc)
  show ?case
  proof (cases x)
    case None
    have "Suc i + length xs = length (panes st)" using Cons.prems by simp
    from Cons.IH [OF this] None i d show ?thesis
      by (simp add: take_Suc_conv_app_nth)
  next
    case (Some v)
    let ?st = "applyPaneSize cfg i (panes (set_size i v st) ! i) (set_size i v st)"
    have g: "getSizes ?st = (getSizes st)[i := v]" by simp
    have "length (panes ?st) = length (panes st)"
      by (simp add: applyPaneSize_def set_size_def)
    then have "Suc i + length xs = length (panes ?st)" using Cons.prems by simp
    from Cons.IH [OF this] Some i d show ?thesis
      using Cons.prems by (simp add: g Let_def take_Suc_conv_app_nth)
  qed
qed

lemma setSizes_sizes:
  "length xs = length (panes st) \<Longrightarrow>
   fst (setSizes cfg xs st) = None \<and>
   getSizes (snd (setSizes cfg xs st)) = map2 stored (getSizes st) xs"
  using setSizes_from_sizes [of 0 xs st cfg] by (simp add: setSizes_def)

lemma stored_dense: "length olds = length vs \<Longrightarrow> map2 stored olds (map Some vs) = vs"
  by (induction olds vs rule: list_induct2) simp_all

text \<open>
  Claim C10, as stated: for every list of as many sizes as there are panes, setSizes
  followed by getSizes returns that list.
  The array \<^verbatim>\<open>[10, , 30]\<close> has the length 3 and a hole in the middle. On the three-pane
  split \<^verbatim>\<open>forEach\<close> skips the hole, the second pane keeps its 33.3 percent, and getSizes
  returns 10, 33.3 and 30, while the array reads 10, \<^verbatim>\<open>undefined\<close> and 30.
\<close>

theorem setSizes_skips_holes:
  "length [Some (Num (Fin 10)), None, Some (Num (Fin 30))] = length (panes demo_split) \<and>
   getSizes (snd (setSizes demo_config [Some (Num (Fin 10)), None, Some (Num (Fin 30))]
                    demo_split)) =
     [Num (Fin 10), Num (Fin 33.3), Num (Fin 30)] \<and>
   elements [Some (Num (Fin 10)), None, Some (Num (Fin 30))] =
     [Num (Fin 10), Undefined, Num (Fin 30)] \<and>
   getSizes (snd (setSizes demo_config [Some (Num (Fin 10)), None, Some (Num (Fin 30))]
                    demo_split)) \<noteq>
     elements [Some (Num (Fin 10)), None, Some (Num (Fin 30))]"
  by (simp add: setSizes_def Let_def set_size_def applyPaneSize_def getSizes_def elements_def
      demo_split_def)

text \<open>
  Claim C10, amended: for every array without holes of as many sizes as there are
  panes, setSizes followed by getSizes returns the sizes given: they are stored as they
  are, with no validation, no clamping against the minimum and no normalisation to a
  sum of 100.
\<close>

theorem setSizes_then_getSizes:
  "length vs = length (panes st) \<Longrightarrow>
   fst (setSizes cfg (map Some vs) st) = None \<and>
   getSizes (snd (setSizes cfg (map Some vs) st)) = vs"
  using setSizes_sizes [of "map Some vs" st cfg] stored_dense [of "getSizes st" vs]
  by (simp add: getSizes_def)

text \<open>The three-pane split takes the sizes 10, 20 and 30, which sum to 60.\<close>

theorem setSizes_then_getSizes_witness:
  "length [Num (Fin 10), Num (Fin 20), Num (Fin 30)] = length (panes demo_split) \<and>
   fst (setSizes demo_config (map Some [Num (Fin 10), Num (Fin 20), Num (Fin 30)])
          demo_split) = None \<and>
   getSizes (snd (setSizes demo_config (map Some [Num (Fin 10), Num (Fin 20), Num (Fin 30)])
                    demo_split)) =
     [Num (Fin 10), Num (Fin 20), Num (Fin 30)] \<and>
   foldl js_add (Num (Fin 0)) [Num (Fin 10), Num (Fin 20), Num (Fin 30)] = Num (Fin 60)"
  using setSizes_then_getSizes [of "[Num (Fin 10), Num (Fin 20), Num (Fin 30)]" demo_split
      demo_config]
  by (simp add: js_add_def)

end
